theory Spec2Isabelle
  imports Main
begin

section \<open>The pipeline service of \<^verbatim>\<open>archive/services/pipeline/app/main.py\<close>\<close>

text \<open>
  The module builds one FastAPI application and declares two path operations on it:
  \<^verbatim>\<open>
  app = FastAPI(title="muse-pipeline")

  class ConvertRequest(BaseModel):
      document_url: str

  @app.get("/health")
  async def health():
      return {"status": "ok", "service": "pipeline"}

  @app.post("/convert")
  async def convert(req: ConvertRequest):
      return {"status": "ok", "message": "conversion endpoint placeholder",
              "document_url": req.document_url}
  \<close>
  The two functions are embedded as they are written. What the decorators, the
  \<^verbatim>\<open>BaseModel\<close> annotation and the \<^verbatim>\<open>FastAPI()\<close> constructor ask of the framework
  (routing, reading and validation of the body, the status codes of its own answers) is
  embedded from the framework's defaults (FastAPI 0.115 on Starlette 0.46), since the
  module overrides none of them.
\<close>

subsection \<open>JSON values\<close>

text \<open>
  A decoded JSON value. The service never computes with a number, so the type of numbers
  is a parameter. An object is the item list of the decoded \<^verbatim>\<open>dict\<close> (one item per key,
  in insertion order); \<^const>\<open>map_of\<close> is the lookup.
\<close>

datatype 'n json =
    JNull
  | JBool bool
  | JNum 'n
  | JStr string
  | JArr "'n json list"
  | JObj "(string \<times> 'n json) list"

subsection \<open>The request schema\<close>

record ConvertRequest =
  document_url :: string

text \<open>
  Validation of a body against \<^verbatim>\<open>ConvertRequest\<close> is pydantic's. In every version a JSON
  object with a string under \<^verbatim>\<open>document_url\<close> validates to that string, other keys are
  ignored (the model sets no \<^verbatim>\<open>extra\<close> policy), and a missing key, \<^verbatim>\<open>null\<close>, an array or
  an object under \<^verbatim>\<open>document_url\<close> is an error. Two things differ between the major
  versions, and the repository pins none: what a \<^verbatim>\<open>str\<close> field makes of a boolean or a
  number (1.x converts it with \<^verbatim>\<open>str()\<close>, 2.x refuses it), and what a model makes of a
  body that is not an object (1.x tries \<^verbatim>\<open>dict(value)\<close>, 2.x refuses it). Both are
  parameters of the model.
\<close>

record 'n pydantic =
  str_coerce :: "'n json \<Rightarrow> string option"
  dict_coerce :: "'n json \<Rightarrow> (string \<times> 'n json) list option"

text \<open>pydantic 2.x: no conversion in either place.\<close>

definition pydantic_v2 :: "'n pydantic" where
  "pydantic_v2 = \<lparr>str_coerce = (\<lambda>v. None), dict_coerce = (\<lambda>v. None)\<rparr>"

datatype validation_error = JsonInvalid | BodyMissing | ModelType | FieldMissing | StringType

definition validate_fields ::
  "'n pydantic \<Rightarrow> (string \<times> 'n json) list \<Rightarrow> validation_error + ConvertRequest" where
  "validate_fields p fs =
     (case map_of fs ''document_url'' of
        None \<Rightarrow> Inl FieldMissing
      | Some (JStr s) \<Rightarrow> Inr \<lparr>document_url = s\<rparr>
      | Some (JBool b) \<Rightarrow>
          (case str_coerce p (JBool b) of
             None \<Rightarrow> Inl StringType
           | Some s \<Rightarrow> Inr \<lparr>document_url = s\<rparr>)
      | Some (JNum n) \<Rightarrow>
          (case str_coerce p (JNum n) of
             None \<Rightarrow> Inl StringType
           | Some s \<Rightarrow> Inr \<lparr>document_url = s\<rparr>)
      | Some JNull \<Rightarrow> Inl StringType
      | Some (JArr vs) \<Rightarrow> Inl StringType
      | Some (JObj kvs) \<Rightarrow> Inl StringType)"

text \<open>
  The value handed to validation is the decoded body, \<open>None\<close> when there is none.
  FastAPI reports a required body that is absent or \<^verbatim>\<open>null\<close> as missing.
\<close>

definition validate ::
  "'n pydantic \<Rightarrow> 'n json option \<Rightarrow> validation_error + ConvertRequest" where
  "validate p body =
     (case body of
        None \<Rightarrow> Inl BodyMissing
      | Some JNull \<Rightarrow> Inl BodyMissing
      | Some (JObj fs) \<Rightarrow> validate_fields p fs
      | Some v \<Rightarrow>
          (case dict_coerce p v of
             None \<Rightarrow> Inl ModelType
           | Some fs \<Rightarrow> validate_fields p fs))"

subsection \<open>The two handlers\<close>

definition health :: "'n json" where
  "health = JObj [(''status'', JStr ''ok''), (''service'', JStr ''pipeline'')]"

definition convert :: "ConvertRequest \<Rightarrow> 'n json" where
  "convert req =
     JObj [(''status'', JStr ''ok''),
           (''message'', JStr ''conversion endpoint placeholder''),
           (''document_url'', JStr (document_url req))]"

subsection \<open>Requests, responses and routes\<close>

datatype http_method = GET | HEAD | POST | PUT | PATCH | DELETE | OPTIONS | TRACE | CONNECT

text \<open>
  The body of a request, by what FastAPI's reading of it yields: no bytes; bytes that
  \<^verbatim>\<open>json\<close> decodes to a value (sent as JSON or with no content type); bytes on which
  it raises \<^verbatim>\<open>JSONDecodeError\<close>; bytes on which it raises anything else (they are not
  text in a Unicode encoding); bytes of another content type, which are not decoded.
\<close>

datatype 'n body =
    Absent
  | Json "'n json"
  | InvalidJson
  | Undecodable
  | Bytes

record 'n request =
  rq_method :: http_method
  rq_path :: string
  rq_body :: "'n body"

text \<open>
  The content of a response: the JSON a handler or the framework returns, the error list
  of a failed validation (its wording is pydantic's and differs between versions, so it
  is named by its kind), a page of the generated documentation, or the target of a
  redirect.
\<close>

datatype 'n content =
    Payload "'n json"
  | ValidationErrors validation_error
  | Generated
  | Redirect string

record 'n response =
  status_code :: nat
  content :: "'n content"

datatype endpoint = Health | Convert | Docs

record route =
  route_path :: string
  route_methods :: "http_method list"
  route_endpoint :: endpoint

text \<open>
  The route table after import. \<^verbatim>\<open>FastAPI()\<close> with default arguments registers its four
  documentation routes first (plain routes, which answer \<^verbatim>\<open>HEAD\<close> as well as \<^verbatim>\<open>GET\<close>);
  \<^verbatim>\<open>@app.get\<close> and \<^verbatim>\<open>@app.post\<close> then add one route each, for the one method named.
\<close>

definition routes :: "route list" where
  "routes =
     [\<lparr>route_path = ''/openapi.json'', route_methods = [GET, HEAD], route_endpoint = Docs\<rparr>,
      \<lparr>route_path = ''/docs'', route_methods = [GET, HEAD], route_endpoint = Docs\<rparr>,
      \<lparr>route_path = ''/docs/oauth2-redirect'', route_methods = [GET, HEAD], route_endpoint = Docs\<rparr>,
      \<lparr>route_path = ''/redoc'', route_methods = [GET, HEAD], route_endpoint = Docs\<rparr>,
      \<lparr>route_path = ''/health'', route_methods = [GET], route_endpoint = Health\<rparr>,
      \<lparr>route_path = ''/convert'', route_methods = [POST], route_endpoint = Convert\<rparr>]"

text \<open>
  Running a path operation. Neither decorator passes \<^verbatim>\<open>status_code\<close>, so a handler's
  return value is sent with the default 200. \<^verbatim>\<open>health\<close> declares no parameter, so the body
  is not read. For \<^verbatim>\<open>convert\<close> the body is read and validated first: a value that fails
  validation never reaches the handler and is answered with 422, as are bytes that are
  not JSON; bytes that cannot be read at all are answered with 400.
\<close>

definition validated :: "'n pydantic \<Rightarrow> 'n json option \<Rightarrow> 'n response" where
  "validated p v =
     (case validate p v of
        Inl err \<Rightarrow> \<lparr>status_code = 422, content = ValidationErrors err\<rparr>
      | Inr req \<Rightarrow> \<lparr>status_code = 200, content = Payload (convert req)\<rparr>)"

definition call :: "'n pydantic \<Rightarrow> endpoint \<Rightarrow> 'n body \<Rightarrow> 'n response" where
  "call p e body =
     (case e of
        Health \<Rightarrow> \<lparr>status_code = 200, content = Payload health\<rparr>
      | Convert \<Rightarrow>
          (case body of
             Absent \<Rightarrow> validated p None
           | Json v \<Rightarrow> validated p (Some v)
           | InvalidJson \<Rightarrow> \<lparr>status_code = 422, content = ValidationErrors JsonInvalid\<rparr>
           | Undecodable \<Rightarrow>
               \<lparr>status_code = 400,
                content = Payload (JObj [(''detail'', JStr ''There was an error parsing the body'')])\<rparr>
           | Bytes \<Rightarrow> \<lparr>status_code = 422, content = ValidationErrors ModelType\<rparr>)
      | Docs \<Rightarrow> \<lparr>status_code = 200, content = Generated\<rparr>)"

definition rstrip_slash :: "string \<Rightarrow> string" where
  "rstrip_slash path = rev (dropWhile (\<lambda>c. c = CHR ''/'') (rev path))"

definition toggle_slash :: "string \<Rightarrow> string" where
  "toggle_slash path =
     (if path \<noteq> [] \<and> last path = CHR ''/'' then rstrip_slash path else path @ ''/'')"

text \<open>
  A route's path is compiled to the regular expression \<^verbatim>\<open>^path$\<close> and tried with
  \<^verbatim>\<open>re.match\<close>; Python's \<^verbatim>\<open>$\<close> also matches before one final newline.
\<close>

definition path_matches :: "string \<Rightarrow> route \<Rightarrow> bool" where
  "path_matches path r = (path = route_path r \<or> path = route_path r @ [CHR 0x0A])"

text \<open>
  The router (Starlette's, with \<^verbatim>\<open>redirect_slashes\<close> left on): the first route whose path
  and method both match runs; a path that matches under another method only is answered
  405; a path that would match with its trailing slashes toggled is redirected; anything
  else is answered 404.
\<close>

definition router :: "'n pydantic \<Rightarrow> 'n request \<Rightarrow> 'n response" where
  "router p rq =
     (case find (\<lambda>r. path_matches (rq_path rq) r \<and> rq_method rq \<in> set (route_methods r)) routes of
        Some r \<Rightarrow> call p (route_endpoint r) (rq_body rq)
      | None \<Rightarrow>
          (case find (path_matches (rq_path rq)) routes of
             Some r \<Rightarrow>
               \<lparr>status_code = 405,
                content = Payload (JObj [(''detail'', JStr ''Method Not Allowed'')])\<rparr>
           | None \<Rightarrow>
               (if rq_path rq \<noteq> ''/'' \<and> find (path_matches (toggle_slash (rq_path rq))) routes \<noteq> None
                then \<lparr>status_code = 307, content = Redirect (toggle_slash (rq_path rq))\<rparr>
                else \<lparr>status_code = 404,
                      content = Payload (JObj [(''detail'', JStr ''Not Found'')])\<rparr>)))"

subsection \<open>The running service\<close>

text \<open>
  The process as a state machine. \<open>'s\<close> stands for whatever mutable state the process
  holds; the module defines no global besides \<^verbatim>\<open>app\<close> and neither handler names one, so
  a request is answered without reading the state and leaves it as it was.
\<close>

definition app :: "'n pydantic \<Rightarrow> 's \<Rightarrow> 'n request \<Rightarrow> 'n response \<times> 's" where
  "app p s rq = (router p rq, s)"

fun serve_all :: "'n pydantic \<Rightarrow> 's \<Rightarrow> 'n request list \<Rightarrow> 'n response list \<times> 's" where
  "serve_all p s [] = ([], s)"
| "serve_all p s (rq # rqs) =
     (case app p s rq of
        (r, s') \<Rightarrow> (case serve_all p s' rqs of (rs, s'') \<Rightarrow> (r # rs, s'')))"

text \<open>
  What a client reads off a response: the value under a key of a JSON object payload,
  and the job identifier, a string under the key \<^verbatim>\<open>job_id\<close>.
\<close>

definition payload_field :: "'n response \<Rightarrow> string \<Rightarrow> 'n json option" where
  "payload_field r k =
     (case content r of
        Payload (JObj fs) \<Rightarrow> map_of fs k
      | _ \<Rightarrow> None)"

definition job_id :: "'n response \<Rightarrow> string option" where
  "job_id r =
     (case payload_field r ''job_id'' of
        Some (JStr j) \<Rightarrow> Some j
      | _ \<Rightarrow> None)"

text \<open>The three requests the properties speak of.\<close>

abbreviation get_health :: "'n body \<Rightarrow> 'n request" where
  "get_health b \<equiv> \<lparr>rq_method = GET, rq_path = ''/health'', rq_body = b\<rparr>"

abbreviation post_convert :: "'n body \<Rightarrow> 'n request" where
  "post_convert b \<equiv> \<lparr>rq_method = POST, rq_path = ''/convert'', rq_body = b\<rparr>"


section \<open>Properties\<close>

subsection \<open>Routing lemmas\<close>

lemma router_health:
  "router p (get_health b) = \<lparr>status_code = 200, content = Payload health\<rparr>"
  by (simp add: router_def routes_def path_matches_def call_def)

lemma router_convert: "router p (post_convert b) = call p Convert b"
  by (simp add: router_def routes_def path_matches_def)

lemma validate_string:
  "map_of fs ''document_url'' = Some (JStr u) \<Longrightarrow>
     validate p (Some (JObj fs)) = Inr \<lparr>document_url = u\<rparr>"
  by (simp add: validate_def validate_fields_def)

lemma router_convert_string:
  "map_of fs ''document_url'' = Some (JStr u) \<Longrightarrow>
     router p (post_convert (Json (JObj fs))) =
       \<lparr>status_code = 200, content = Payload (convert \<lparr>document_url = u\<rparr>)\<rparr>"
  by (simp add: router_convert call_def validated_def validate_string)








subsection \<open>What every response looks like\<close>


lemma router_job_id: "job_id (router p rq) = None"
  by (simp add: router_def call_def validated_def job_id_def payload_field_def health_def
      convert_def split: option.splits endpoint.splits sum.splits body.splits)

lemma serve_all_router: "serve_all p s rqs = (map (router p) rqs, s)"
  by (induction rqs) (simp_all add: app_def)




subsection \<open>The health probe\<close>

text \<open>
  C2. For every invocation, whatever the process state and whatever the request carries,
  \<^verbatim>\<open>GET /health\<close> is answered with status 200 and the JSON body
  \<^verbatim>\<open>{"status": "ok", "service": "pipeline"}\<close>, and the state is left as it was.
\<close>

theorem health_always_200_ok:
  "app p s (get_health b) =
     (\<lparr>status_code = 200,
       content = Payload (JObj [(''status'', JStr ''ok''), (''service'', JStr ''pipeline'')])\<rparr>, s)"
  by (simp add: app_def router_health health_def)

subsection \<open>The conversion placeholder\<close>











subsection \<open>What the service does not have\<close>



text \<open>
  C6, as the code has it. The service issues no job identifier: in every sequence of
  requests, no response carries a \<^verbatim>\<open>job_id\<close>.
\<close>

theorem no_job_id_issued:
  "map job_id (fst (serve_all p s rqs)) = replicate (length rqs) None"
  by (simp add: serve_all_router comp_def router_job_id map_replicate_const)

text \<open>
  C6 as the specification states it fails: two valid submissions in a row are both
  accepted, and neither response carries a job identifier.
\<close>

theorem submit_returns_no_job_id_counterexample:
  "map status_code (fst (serve_all (pydantic_v2 :: int pydantic) ()
      [post_convert (Json (JObj [(''document_url'', JStr ''http://x/a.pdf'')])),
       post_convert (Json (JObj [(''document_url'', JStr ''http://x/b.pdf'')]))])) = [200, 200]
    \<and> map job_id (fst (serve_all (pydantic_v2 :: int pydantic) ()
      [post_convert (Json (JObj [(''document_url'', JStr ''http://x/a.pdf'')])),
       post_convert (Json (JObj [(''document_url'', JStr ''http://x/b.pdf'')]))])) = [None, None]"
proof -
  have "map status_code (map (router (pydantic_v2 :: int pydantic))
      [post_convert (Json (JObj [(''document_url'', JStr ''http://x/a.pdf'')])),
       post_convert (Json (JObj [(''document_url'', JStr ''http://x/b.pdf'')]))]) = [200, 200]"
    by (simp add: router_convert_string)
  moreover have "map job_id (map (router (pydantic_v2 :: int pydantic))
      [post_convert (Json (JObj [(''document_url'', JStr ''http://x/a.pdf'')])),
       post_convert (Json (JObj [(''document_url'', JStr ''http://x/b.pdf'')]))]) = [None, None]"
    by (simp only: list.map router_job_id)
  ultimately show ?thesis
    unfolding serve_all_router fst_conv by (rule conjI)
qed




subsection \<open>Determinism and statelessness\<close>


end
